theory Spec2Isabelle
  imports Complex_Main
begin

section \<open>Schema of the raw DataFrame\<close>

text \<open>
  The column types of \<^verbatim>\<open>pyspark.sql.types\<close> that the pipeline names or that JSON
  inference produces. A \<^verbatim>\<open>StructField\<close> is its name, its type and its nullable flag.
\<close>

datatype data_type =
    NullType
  | StringType
  | BooleanType
  | IntegerType
  | LongType
  | DoubleType
  | ArrayType data_type
  | MapType data_type data_type
  | StructType "(string \<times> data_type \<times> bool) list"

text \<open>The Python class of a type object, which is all that \<^verbatim>\<open>type(x)\<close> keeps of it.\<close>

datatype py_class =
    CNullType | CStringType | CBooleanType | CIntegerType | CLongType | CDoubleType
  | CArrayType | CMapType | CStructType

fun type_of :: "data_type \<Rightarrow> py_class" where
  "type_of NullType = CNullType"
| "type_of StringType = CStringType"
| "type_of BooleanType = CBooleanType"
| "type_of IntegerType = CIntegerType"
| "type_of LongType = CLongType"
| "type_of DoubleType = CDoubleType"
| "type_of (ArrayType _) = CArrayType"
| "type_of (MapType _ _) = CMapType"
| "type_of (StructType _) = CStructType"

text \<open>
  \<^verbatim>\<open>isinstance(x, C)\<close>: none of these nine classes is a subclass of another, so an
  object is an instance of \<open>C\<close> exactly when its class is \<open>C\<close>.
\<close>

definition isinstance :: "data_type \<Rightarrow> py_class \<Rightarrow> bool" where
  "isinstance x c = (type_of x = c)"

section \<open>Errors and the log\<close>

text \<open>
  \<open>TypeError f\<close> is the exception of \<^verbatim>\<open>validar_schema_bruto\<close>, whose message quotes the
  missing field \<open>f\<close>. The logger is a list of entries, oldest first: the fixed
  informational messages by name, the two warnings with the values they interpolate,
  and the error entry of the \<^verbatim>\<open>except\<close> block.
\<close>

datatype error = TypeError string

datatype info_msg =
    IniciandoValidacao | ValidacaoConcluida
  | IniciandoTransformacao | AplicandoTransformacoes | TransformacaoConcluida

datatype log_entry =
    Info info_msg
  | WarnTipoCampo string py_class py_class
  | WarnPopulacaoInvalida nat
  | ErroTransformacao error

section \<open>validar\_schema\_bruto\<close>

definition required_fields :: "(string \<times> data_type) list" where
  "required_fields =
    [(''name'', StructType [(''common'', StringType, True), (''official'', StringType, True)]),
     (''currencies'', MapType StringType
         (StructType [(''name'', StringType, True), (''symbol'', StringType, True)])),
     (''languages'', MapType StringType StringType),
     (''capital'', ArrayType StringType),
     (''population'', IntegerType),
     (''area'', DoubleType),
     (''region'', StringType),
     (''subregion'', StringType)]"

text \<open>
  \<^verbatim>\<open>{field.name: field.dataType for field in df.schema.fields}\<close>: a dict built left to
  right, so a later field of the same name replaces an earlier one.
\<close>

definition df_schema :: "(string \<times> data_type) list \<Rightarrow> string \<rightharpoonup> data_type" where
  "df_schema fields = map_of (rev fields)"

text \<open>
  The \<^verbatim>\<open>for\<close> loop over \<^verbatim>\<open>required_fields.items()\<close>, in insertion order, threading
  the log. The \<^verbatim>\<open>raise\<close> leaves the loop with the log written so far.
\<close>

fun validar_loop ::
  "(string \<rightharpoonup> data_type) \<Rightarrow> (string \<times> data_type) list \<Rightarrow> log_entry list
     \<Rightarrow> log_entry list \<times> (error + unit)" where
  "validar_loop sch [] lg = (lg, Inr ())"
| "validar_loop sch ((field, expected_type) # rest) lg =
     (case sch field of
        None \<Rightarrow> (lg, Inl (TypeError field))
      | Some t \<Rightarrow>
          validar_loop sch rest
            (if \<not> isinstance t (type_of expected_type)
             then lg @ [WarnTipoCampo field (type_of t) (type_of expected_type)]
             else lg))"

definition validar_schema_bruto ::
  "(string \<times> data_type) list \<Rightarrow> log_entry list \<times> (error + unit)" where
  "validar_schema_bruto fields =
     (case validar_loop (df_schema fields) required_fields [Info IniciandoValidacao] of
        (lg, Inl e) \<Rightarrow> (lg, Inl e)
      | (lg, Inr u) \<Rightarrow> (lg @ [Info ValidacaoConcluida], Inr u))"

section \<open>Rows of the raw DataFrame\<close>

text \<open>
  A row of \<^verbatim>\<open>df_raw\<close>, read through the eight columns the \<^verbatim>\<open>select\<close> names. Every
  column is nullable: \<open>None\<close> is SQL \<^verbatim>\<open>null\<close>, which is also what a field absent from
  the JSON object reads as. A map is its list of entries (keys pairwise distinct), an
  array its list of elements. The columns have the types that the column expressions
  of the \<^verbatim>\<open>select\<close> read them at: \<^verbatim>\<open>currencies\<close> and \<^verbatim>\<open>languages\<close> are maps, since
  they are exploded into \<open>key\<close> and \<open>value\<close>, \<^verbatim>\<open>name\<close> is a struct and \<^verbatim>\<open>capital\<close> an
  array. The two columns the code casts explicitly hold any scalar; a double is
  represented by the real number it denotes.
\<close>

record name_struct =
  common :: "string option"
  official :: "string option"

record currency_struct =
  currency_name :: "string option"
  currency_symbol :: "string option"

datatype scalar = SNull | SBool bool | SLong int | SDouble real | SString string

record raw_record =
  name :: "name_struct option"
  currencies :: "(string \<times> currency_struct option) list option"
  languages :: "(string \<times> string option) list option"
  capital :: "string option list option"
  population :: scalar
  area :: scalar
  region :: "string option"
  subregion :: "string option"

text \<open>
  The row of \<^verbatim>\<open>df_final\<close>: the ten aliases of the \<^verbatim>\<open>select\<close>, in its order
  (\<open>capital_col\<close> and \<open>area_col\<close> are the aliases \<^verbatim>\<open>capital\<close> and \<^verbatim>\<open>area\<close>).
\<close>

record flat_row =
  nome_comum :: string
  nome_oficial :: string
  regiao :: string
  sub_regiao :: string
  capital_col :: string
  populacao :: int
  area_col :: real
  moeda_codigo :: string
  moeda_nome :: string
  idioma :: string

section \<open>The column functions of Spark SQL\<close>

text \<open>
  The part of the engine that the pipeline leaves to Spark's parsers and to
  floating-point rounding is a parameter: how a string casts to an integer or to a
  double (\<open>None\<close> when it does not parse), and which double is nearest to a long.
\<close>

record engine =
  string_to_int :: "string \<Rightarrow> int option"
  string_to_double :: "string \<Rightarrow> real option"
  long_to_double :: "int \<Rightarrow> real"

text \<open>\<^verbatim>\<open>coalesce(c, lit(d))\<close>: the first of the two that is not null.\<close>

fun coalesce :: "'a option \<Rightarrow> 'a \<Rightarrow> 'a" where
  "coalesce None d = d"
| "coalesce (Some v) d = v"

text \<open>
  \<^verbatim>\<open>explode_outer\<close> of a map column: one row per entry, bound as a struct of \<open>key\<close>
  and \<open>value\<close>, and a single row with null in its place when the map is null or empty.
\<close>

fun explode_outer :: "('k \<times> 'v) list option \<Rightarrow> ('k \<times> 'v) option list" where
  "explode_outer None = [None]"
| "explode_outer (Some []) = [None]"
| "explode_outer (Some (e # es)) = map Some (e # es)"

text \<open>\<^verbatim>\<open>element_at(a, 1)\<close>: the first element, null when the array is null or has none.\<close>

fun element_at_1 :: "'a option list option \<Rightarrow> 'a option" where
  "element_at_1 None = None"
| "element_at_1 (Some []) = None"
| "element_at_1 (Some (x # xs)) = x"

text \<open>
  \<^verbatim>\<open>cast(IntegerType())\<close> with Spark's default (non-ANSI) semantics: a long keeps its
  low 32 bits, a double is truncated toward zero and saturated, a boolean is 1 or 0,
  a string is parsed, and a value that does not cast is null.
\<close>

definition wrap32 :: "int \<Rightarrow> int" where
  "wrap32 n = (n + 2147483648) mod 4294967296 - 2147483648"

definition double_to_int :: "real \<Rightarrow> int" where
  "double_to_int d =
     max (- 2147483648) (min 2147483647 (if 0 \<le> d then \<lfloor>d\<rfloor> else \<lceil>d\<rceil>))"

fun cast_IntegerType :: "engine \<Rightarrow> scalar \<Rightarrow> int option" where
  "cast_IntegerType eng SNull = None"
| "cast_IntegerType eng (SBool b) = Some (if b then 1 else 0)"
| "cast_IntegerType eng (SLong n) = Some (wrap32 n)"
| "cast_IntegerType eng (SDouble d) = Some (double_to_int d)"
| "cast_IntegerType eng (SString s) = string_to_int eng s"

fun cast_DoubleType :: "engine \<Rightarrow> scalar \<Rightarrow> real option" where
  "cast_DoubleType eng SNull = None"
| "cast_DoubleType eng (SBool b) = Some (if b then 1 else 0)"
| "cast_DoubleType eng (SLong n) = Some (long_to_double eng n)"
| "cast_DoubleType eng (SDouble d) = Some d"
| "cast_DoubleType eng (SString s) = string_to_double eng s"

section \<open>transformar\_dados\_paises\<close>

text \<open>
  \<^verbatim>\<open>df_exploded\<close>: the two \<^verbatim>\<open>withColumn\<close> calls, currencies first, each keeping the
  row's other columns. A row of it is the raw row with its \<^verbatim>\<open>currencies_map\<close> and
  \<^verbatim>\<open>languages_map\<close> entries.
\<close>

type_synonym exploded_row =
  "raw_record \<times> (string \<times> currency_struct option) option \<times> (string \<times> string option) option"

definition df_exploded :: "raw_record list \<Rightarrow> exploded_row list" where
  "df_exploded df_raw =
     concat (map (\<lambda>(r, c). map (\<lambda>l. (r, c, l)) (explode_outer (languages r)))
       (concat (map (\<lambda>r. map (\<lambda>c. (r, c)) (explode_outer (currencies r))) df_raw)))"

text \<open>The ten expressions of the \<^verbatim>\<open>select\<close>; a path through a null struct is null.\<close>

fun select_row :: "engine \<Rightarrow> exploded_row \<Rightarrow> flat_row" where
  "select_row eng (r, currencies_map, languages_map) =
     \<lparr> nome_comum = coalesce (Option.bind (name r) common) ''N/A'',
       nome_oficial = coalesce (Option.bind (name r) official) ''N/A'',
       regiao = coalesce (region r) ''N/A'',
       sub_regiao = coalesce (subregion r) ''N/A'',
       capital_col = coalesce (element_at_1 (capital r)) ''N/A'',
       populacao = coalesce (cast_IntegerType eng (population r)) 0,
       area_col = coalesce (cast_DoubleType eng (area r)) 0,
       moeda_codigo = coalesce (map_option fst currencies_map) ''N/A'',
       moeda_nome =
         coalesce (Option.bind (Option.bind currencies_map snd) currency_name) ''N/A'',
       idioma = coalesce (Option.bind languages_map snd) ''N/A'' \<rparr>"

text \<open>
  The \<^verbatim>\<open>select\<close> over \<^verbatim>\<open>df_exploded\<close> is the flattening; \<^verbatim>\<open>.distinct()\<close> is the
  deduplication, which keeps one copy of every row (Spark fixes no order of the result;
  here the last copy of a row stays in place).
\<close>

definition flatten :: "engine \<Rightarrow> raw_record list \<Rightarrow> flat_row list" where
  "flatten eng df_raw = map (select_row eng) (df_exploded df_raw)"

definition dedupe :: "flat_row list \<Rightarrow> flat_row list" where
  "dedupe rows = remdups rows"

text \<open>
  A DataFrame read from the JSON file: the inferred schema and the rows.
\<close>

record data_frame =
  schema_fields :: "(string \<times> data_type) list"
  rows :: "raw_record list"



section \<open>Auxiliary definitions and example data\<close>

text \<open>
  The warning, if any, that one iteration of the validation loop writes for the
  required field \<open>p\<close> under the schema \<open>sch\<close>.
\<close>

definition tipo_warning ::
  "(string \<rightharpoonup> data_type) \<Rightarrow> string \<times> data_type \<Rightarrow> log_entry list" where
  "tipo_warning sch p =
     (case sch (fst p) of
        None \<Rightarrow> []
      | Some t \<Rightarrow> if type_of t = type_of (snd p) then []
                  else [WarnTipoCampo (fst p) (type_of t) (type_of (snd p))])"

text \<open>
  Schemas for the examples: one without \<^verbatim>\<open>region\<close> (and with \<^verbatim>\<open>population\<close> as
  the long that JSON inference gives an integer), one with \<^verbatim>\<open>region\<close> as a long, one
  whose \<^verbatim>\<open>currencies\<close> is a map of strings and whose \<^verbatim>\<open>capital\<close> is an array of
  integers, and the expected schema with \<^verbatim>\<open>population\<close> as a long.
\<close>

definition schema_sem_region :: "(string \<times> data_type) list" where
  "schema_sem_region =
    [(''name'', StructType [(''common'', StringType, True), (''official'', StringType, True)]),
     (''currencies'', MapType StringType
         (StructType [(''name'', StringType, True), (''symbol'', StringType, True)])),
     (''languages'', MapType StringType StringType),
     (''capital'', ArrayType StringType),
     (''population'', LongType),
     (''area'', DoubleType),
     (''subregion'', StringType)]"

definition schema_region_long :: "(string \<times> data_type) list" where
  "schema_region_long =
    [(''name'', StructType [(''common'', StringType, True), (''official'', StringType, True)]),
     (''currencies'', MapType StringType
         (StructType [(''name'', StringType, True), (''symbol'', StringType, True)])),
     (''languages'', MapType StringType StringType),
     (''capital'', ArrayType StringType),
     (''population'', IntegerType),
     (''area'', DoubleType),
     (''region'', LongType),
     (''subregion'', StringType)]"

definition schema_inner_drift :: "(string \<times> data_type) list" where
  "schema_inner_drift =
    [(''name'', StructType [(''common'', StringType, True), (''official'', StringType, True)]),
     (''currencies'', MapType StringType StringType),
     (''languages'', MapType StringType StringType),
     (''capital'', ArrayType IntegerType),
     (''population'', IntegerType),
     (''area'', DoubleType),
     (''region'', StringType),
     (''subregion'', StringType)]"









section \<open>Properties of the validation loop\<close>

lemma validar_loop_result:
  "snd (validar_loop sch fs lg) =
     (case find (\<lambda>p. sch (fst p) = None) fs of
        None \<Rightarrow> Inr () | Some p \<Rightarrow> Inl (TypeError (fst p)))"
  by (induction sch fs lg rule: validar_loop.induct) (simp_all split: option.splits)

lemma find_Some_mem:
  "find P xs = Some p \<Longrightarrow> p \<in> set xs \<and> P p"
  by (induction xs) (simp_all split: if_splits)

lemma find_None_all:
  "(find P xs = None) = (\<forall>x \<in> set xs. \<not> P x)"
  by (induction xs) simp_all

lemma validar_loop_log_prefix:
  "fst (validar_loop sch fs lg) =
     lg @ concat (map (tipo_warning sch) (takeWhile (\<lambda>p. sch (fst p) \<noteq> None) fs))"
proof (induction sch fs lg rule: validar_loop.induct)
  case (1 sch lg)
  then show ?case by simp
next
  case (2 sch field expected_type rest lg)
  show ?case
  proof (cases "sch field")
    case None
    then show ?thesis by simp
  next
    case (Some t)
    with "2.IH"[OF Some] show ?thesis
      by (simp add: isinstance_def tipo_warning_def)
  qed
qed

lemma validar_loop_log:
  assumes "\<forall>p \<in> set fs. sch (fst p) \<noteq> None"
  shows "fst (validar_loop sch fs lg) = lg @ concat (map (tipo_warning sch) fs)"
proof -
  from assms have tw: "takeWhile (\<lambda>p. sch (fst p) \<noteq> None) fs = fs"
    by (simp add: takeWhile_eq_all_conv)
  show ?thesis
    by (simp only: validar_loop_log_prefix tw)
qed

lemma tipo_warning_mem:
  "(w \<in> set (tipo_warning sch (f, t))) =
   (\<exists>t'. sch f = Some t' \<and> type_of t' \<noteq> type_of t
      \<and> w = WarnTipoCampo f (type_of t') (type_of t))"
  by (cases "sch f") (simp_all add: tipo_warning_def)

lemma required_fields_distinct: "distinct (map fst required_fields)"
  by (simp add: required_fields_def)

lemma validar_schema_bruto_split:
  "validar_schema_bruto flds =
     (let r = validar_loop (df_schema flds) required_fields [Info IniciandoValidacao]
      in (case snd r of Inl e \<Rightarrow> (fst r, Inl e)
          | Inr u \<Rightarrow> (fst r @ [Info ValidacaoConcluida], Inr u)))"
  by (simp add: validar_schema_bruto_def Let_def split: prod.splits sum.splits)

lemma validar_sem_region:
  "validar_schema_bruto schema_sem_region =
     ([Info IniciandoValidacao, WarnTipoCampo ''population'' CLongType CIntegerType],
      Inl (TypeError ''region''))"
  by (simp add: validar_schema_bruto_def df_schema_def required_fields_def
      schema_sem_region_def isinstance_def)

lemma validar_region_long:
  "validar_schema_bruto schema_region_long =
     ([Info IniciandoValidacao, WarnTipoCampo ''region'' CLongType CStringType,
       Info ValidacaoConcluida], Inr ())"
  by (simp add: validar_schema_bruto_def df_schema_def required_fields_def
      schema_region_long_def isinstance_def)

lemma validar_inner_drift:
  "validar_schema_bruto schema_inner_drift =
     ([Info IniciandoValidacao, Info ValidacaoConcluida], Inr ())"
  by (simp add: validar_schema_bruto_def df_schema_def required_fields_def
      schema_inner_drift_def isinstance_def)


section \<open>Claims about validar\_schema\_bruto\<close>

text \<open>
  Claim C2, as amended. Whenever some required field is absent from the schema,
  \<^verbatim>\<open>validar_schema_bruto\<close> raises the \<^verbatim>\<open>TypeError\<close> naming a required field that is
  absent. When every required field is present it does not raise, and its log holds,
  besides the two informational entries, exactly one warning for each required field
  whose observed type has another class than the expected type, naming the field
  and the two classes. Only the class (the outermost type constructor) is compared.
\<close>

theorem validar_missing_or_warn:
  "((\<exists>p \<in> set required_fields. df_schema flds (fst p) = None) \<longrightarrow>
      (\<exists>p \<in> set required_fields. df_schema flds (fst p) = None \<and>
         snd (validar_schema_bruto flds) = Inl (TypeError (fst p))))
   \<and> (\<not> (\<exists>p \<in> set required_fields. df_schema flds (fst p) = None) \<longrightarrow>
        snd (validar_schema_bruto flds) = Inr () \<and>
        (\<forall>w. (w \<in> set (fst (validar_schema_bruto flds))) =
           (w = Info IniciandoValidacao \<or> w = Info ValidacaoConcluida \<or>
            (\<exists>f t t'. (f, t) \<in> set required_fields \<and> df_schema flds f = Some t' \<and>
               type_of t' \<noteq> type_of t \<and> w = WarnTipoCampo f (type_of t') (type_of t)))))"
proof (intro conjI impI)
  let ?sch = "df_schema flds"
  let ?absent = "\<lambda>p. ?sch (fst p) = None"
  assume "\<exists>p \<in> set required_fields. ?absent p"
  then have "find ?absent required_fields \<noteq> None"
    by (simp add: find_None_all)
  then obtain p where p: "find ?absent required_fields = Some p" by blast
  then have mem: "p \<in> set required_fields \<and> ?absent p"
    by (rule find_Some_mem)
  have "snd (validar_loop ?sch required_fields [Info IniciandoValidacao]) = Inl (TypeError (fst p))"
    by (simp add: validar_loop_result p)
  then have "snd (validar_schema_bruto flds) = Inl (TypeError (fst p))"
    by (simp add: validar_schema_bruto_split Let_def)
  with mem show "\<exists>p \<in> set required_fields. ?absent p \<and>
         snd (validar_schema_bruto flds) = Inl (TypeError (fst p))"
    by blast
next
  let ?sch = "df_schema flds"
  assume "\<not> (\<exists>p \<in> set required_fields. ?sch (fst p) = None)"
  then have all: "\<forall>p \<in> set required_fields. ?sch (fst p) \<noteq> None"
    by simp
  then have none: "find (\<lambda>p. ?sch (fst p) = None) required_fields = None"
    by (simp add: find_None_all)
  have res: "snd (validar_loop ?sch required_fields [Info IniciandoValidacao]) = Inr ()"
    by (simp add: validar_loop_result none)
  have lg: "fst (validar_loop ?sch required_fields [Info IniciandoValidacao]) =
      [Info IniciandoValidacao] @ concat (map (tipo_warning ?sch) required_fields)"
    using all by (rule validar_loop_log)
  have full: "validar_schema_bruto flds =
      ([Info IniciandoValidacao] @ concat (map (tipo_warning ?sch) required_fields)
         @ [Info ValidacaoConcluida], Inr ())"
    using res lg by (simp add: validar_schema_bruto_split Let_def)
  show "snd (validar_schema_bruto flds) = Inr ()"
    by (simp add: full)
  show "\<forall>w. (w \<in> set (fst (validar_schema_bruto flds))) =
           (w = Info IniciandoValidacao \<or> w = Info ValidacaoConcluida \<or>
            (\<exists>f t t'. (f, t) \<in> set required_fields \<and> ?sch f = Some t' \<and>
               type_of t' \<noteq> type_of t \<and> w = WarnTipoCampo f (type_of t') (type_of t)))"
  proof
    fix w
    have "(w \<in> set (concat (map (tipo_warning ?sch) required_fields))) =
          (\<exists>f t. (f, t) \<in> set required_fields \<and> w \<in> set (tipo_warning ?sch (f, t)))"
      by auto
    also have "\<dots> = (\<exists>f t t'. (f, t) \<in> set required_fields \<and> ?sch f = Some t' \<and>
               type_of t' \<noteq> type_of t \<and> w = WarnTipoCampo f (type_of t') (type_of t))"
      by (simp only: tipo_warning_mem) blast
    finally show "(w \<in> set (fst (validar_schema_bruto flds))) =
           (w = Info IniciandoValidacao \<or> w = Info ValidacaoConcluida \<or>
            (\<exists>f t t'. (f, t) \<in> set required_fields \<and> ?sch f = Some t' \<and>
               type_of t' \<noteq> type_of t \<and> w = WarnTipoCampo f (type_of t') (type_of t)))"
      by (simp add: full)
  qed
qed

text \<open>
  Both cases occur: without \<^verbatim>\<open>region\<close> the error names it; with \<^verbatim>\<open>region\<close> inferred
  as a long the validation passes and warns about it.
\<close>

theorem validar_missing_or_warn_witness:
  "(\<exists>p \<in> set required_fields. df_schema schema_sem_region (fst p) = None)
   \<and> snd (validar_schema_bruto schema_sem_region) = Inl (TypeError ''region'')
   \<and> \<not> (\<exists>p \<in> set required_fields. df_schema schema_region_long (fst p) = None)
   \<and> snd (validar_schema_bruto schema_region_long) = Inr ()
   \<and> WarnTipoCampo ''region'' CLongType CStringType
        \<in> set (fst (validar_schema_bruto schema_region_long))"
proof -
  have absent: "\<exists>p \<in> set required_fields. df_schema schema_sem_region (fst p) = None"
    by (simp add: required_fields_def df_schema_def schema_sem_region_def)
  have present: "\<not> (\<exists>p \<in> set required_fields. df_schema schema_region_long (fst p) = None)"
    by (simp add: required_fields_def df_schema_def schema_region_long_def)
  note thm1 = validar_missing_or_warn[of schema_sem_region, THEN conjunct1, rule_format, OF absent]
  then obtain p :: "string \<times> data_type"
    where "snd (validar_schema_bruto schema_sem_region) = Inl (TypeError (fst p))"
    by blast
  then have a: "snd (validar_schema_bruto schema_sem_region) = Inl (TypeError ''region'')"
    by (simp add: validar_sem_region)
  note thm2 = validar_missing_or_warn[of schema_region_long, THEN conjunct2, THEN mp, OF present]
  from thm2 have b: "snd (validar_schema_bruto schema_region_long) = Inr ()"
    by (rule conjunct1)
  from thm2 have c: "\<forall>w. (w \<in> set (fst (validar_schema_bruto schema_region_long))) =
           (w = Info IniciandoValidacao \<or> w = Info ValidacaoConcluida \<or>
            (\<exists>f t t'. (f, t) \<in> set required_fields \<and> df_schema schema_region_long f = Some t' \<and>
               type_of t' \<noteq> type_of t \<and> w = WarnTipoCampo f (type_of t') (type_of t)))"
    by (rule conjunct2)
  have "(''region'', StringType) \<in> set required_fields
      \<and> df_schema schema_region_long ''region'' = Some LongType"
    by (simp add: required_fields_def df_schema_def schema_region_long_def)
  then have "\<exists>f t t'. (f, t) \<in> set required_fields \<and> df_schema schema_region_long f = Some t' \<and>
               type_of t' \<noteq> type_of t \<and> WarnTipoCampo ''region'' CLongType CStringType
                 = WarnTipoCampo f (type_of t') (type_of t)"
    by (intro exI[of _ "''region''"] exI[of _ StringType] exI[of _ LongType]) simp
  with c have d: "WarnTipoCampo ''region'' CLongType CStringType
        \<in> set (fst (validar_schema_bruto schema_region_long))"
    by blast
  from absent a present b d show ?thesis by blast
qed

text \<open>
  Claim C2 as stated fails where the shape differs from the expected one below the
  outermost constructor: \<^verbatim>\<open>currencies\<close> inferred as a map of strings is not the
  expected map of structs, and the log has no warning at all.
\<close>

theorem validar_inner_shape_counterexample:
  "map_of required_fields ''currencies'' =
      Some (MapType StringType
        (StructType [(''name'', StringType, True), (''symbol'', StringType, True)]))
   \<and> df_schema schema_inner_drift ''currencies'' = Some (MapType StringType StringType)
   \<and> validar_schema_bruto schema_inner_drift =
       ([Info IniciandoValidacao, Info ValidacaoConcluida], Inr ())"
proof (intro conjI)
  show "map_of required_fields ''currencies'' =
      Some (MapType StringType
        (StructType [(''name'', StringType, True), (''symbol'', StringType, True)]))"
    by (simp add: required_fields_def)
  show "df_schema schema_inner_drift ''currencies'' = Some (MapType StringType StringType)"
    by (simp add: df_schema_def schema_inner_drift_def)
  show "validar_schema_bruto schema_inner_drift =
       ([Info IniciandoValidacao, Info ValidacaoConcluida], Inr ())"
    by (rule validar_inner_drift)
qed

text \<open>
  Claim C10. The check is shallow: a required field that is present with a type of the
  expected class, whatever its inner types, is neither the field of the error nor the
  field of any warning.
\<close>

theorem validar_shallow:
  assumes req: "(f, t) \<in> set required_fields"
    and obs: "df_schema flds f = Some t'"
    and cls: "type_of t' = type_of t"
  shows "snd (validar_schema_bruto flds) \<noteq> Inl (TypeError f)
       \<and> (\<forall>a b. WarnTipoCampo f a b \<notin> set (fst (validar_schema_bruto flds)))"
proof
  let ?sch = "df_schema flds"
  let ?r = "validar_loop ?sch required_fields [Info IniciandoValidacao]"
  have "snd ?r \<noteq> Inl (TypeError f)"
  proof (cases "find (\<lambda>p. ?sch (fst p) = None) required_fields")
    case None
    then show ?thesis by (simp add: validar_loop_result)
  next
    case (Some p)
    from find_Some_mem[OF Some] obs have "fst p \<noteq> f" by auto
    with Some show ?thesis by (simp add: validar_loop_result)
  qed
  then show "snd (validar_schema_bruto flds) \<noteq> Inl (TypeError f)"
    by (cases "snd ?r") (simp_all add: validar_schema_bruto_split Let_def)
  have nowarn: "WarnTipoCampo f a b \<notin> set (fst ?r)" for a b
  proof
    assume "WarnTipoCampo f a b \<in> set (fst ?r)"
    then obtain p where p: "p \<in> set required_fields"
      and w: "WarnTipoCampo f a b \<in> set (tipo_warning ?sch p)"
      by (auto simp: validar_loop_log_prefix dest: set_takeWhileD)
    obtain f2 t2 where p2: "p = (f2, t2)" by (cases p)
    from w p2 obs have "f2 = f" and ne: "type_of t' \<noteq> type_of t2"
      by (auto simp: tipo_warning_mem)
    with p p2 req required_fields_distinct have "t2 = t"
      by (metis eq_key_imp_eq_value)
    with ne cls show False by simp
  qed
  show "\<forall>a b. WarnTipoCampo f a b \<notin> set (fst (validar_schema_bruto flds))"
    using nowarn by (cases "snd ?r") (simp_all add: validar_schema_bruto_split Let_def)
qed

text \<open>The case of \<^verbatim>\<open>currencies\<close> inferred as a map of strings.\<close>

theorem validar_shallow_witness:
  "(''currencies'', MapType StringType
       (StructType [(''name'', StringType, True), (''symbol'', StringType, True)]))
     \<in> set required_fields
   \<and> df_schema schema_inner_drift ''currencies'' = Some (MapType StringType StringType)
   \<and> type_of (MapType StringType StringType) = type_of (MapType StringType
       (StructType [(''name'', StringType, True), (''symbol'', StringType, True)]))
   \<and> snd (validar_schema_bruto schema_inner_drift) \<noteq> Inl (TypeError ''currencies'')
   \<and> (\<forall>a b. WarnTipoCampo ''currencies'' a b
         \<notin> set (fst (validar_schema_bruto schema_inner_drift)))"
proof -
  have req: "(''currencies'', MapType StringType
       (StructType [(''name'', StringType, True), (''symbol'', StringType, True)]))
     \<in> set required_fields"
    by (simp add: required_fields_def)
  have obs: "df_schema schema_inner_drift ''currencies'' = Some (MapType StringType StringType)"
    by (simp add: df_schema_def schema_inner_drift_def)
  have cls: "type_of (MapType StringType StringType) = type_of (MapType StringType
       (StructType [(''name'', StringType, True), (''symbol'', StringType, True)]))"
    by simp
  from validar_shallow[OF req obs cls] req obs cls show ?thesis by blast
qed

section \<open>Properties of the flattening\<close>






















section \<open>Claims about transformar\_dados\_paises\<close>














text \<open>
  Claim C8. Deduplicating the flattened rows a second time changes nothing, as a list
  and hence as a set; the deduplicated table has the rows of the flattening, each once.
  Two rows are equal exactly when all ten columns are equal.
\<close>

theorem dedupe_idempotent:
  "dedupe (dedupe (flatten eng R)) = dedupe (flatten eng R)
   \<and> set (dedupe (dedupe (flatten eng R))) = set (dedupe (flatten eng R))
   \<and> set (dedupe (flatten eng R)) = set (flatten eng R)
   \<and> distinct (dedupe (flatten eng R))
   \<and> ((a :: flat_row) = b) =
       (nome_comum a = nome_comum b \<and> nome_oficial a = nome_oficial b
        \<and> regiao a = regiao b \<and> sub_regiao a = sub_regiao b
        \<and> capital_col a = capital_col b \<and> populacao a = populacao b
        \<and> area_col a = area_col b \<and> moeda_codigo a = moeda_codigo b
        \<and> moeda_nome a = moeda_nome b \<and> idioma a = idioma b)"
proof (intro conjI)
  show "(a = b) =
       (nome_comum a = nome_comum b \<and> nome_oficial a = nome_oficial b
        \<and> regiao a = regiao b \<and> sub_regiao a = sub_regiao b
        \<and> capital_col a = capital_col b \<and> populacao a = populacao b
        \<and> area_col a = area_col b \<and> moeda_codigo a = moeda_codigo b
        \<and> moeda_nome a = moeda_nome b \<and> idioma a = idioma b)"
    by (cases a, cases b) auto
qed (simp_all add: dedupe_def)



end
